theory Spec2Isabelle
  imports Main "HOL-Library.Sublist" "HOL-Library.Word"
begin

section \<open>Values: decoded JSON and Python exceptions\<close>

text \<open>
  The service (\<^verbatim>\<open>src/main.py\<close>) moves decoded JSON between its callers and one upstream
  GraphQL endpoint. A decoded JSON value is a Python \<^verbatim>\<open>None\<close>, \<^verbatim>\<open>bool\<close>, number, \<^verbatim>\<open>str\<close>,
  \<^verbatim>\<open>list\<close> or \<^verbatim>\<open>dict\<close>. A \<^verbatim>\<open>dict\<close> is kept as an association list in insertion order;
  look-up takes the first binding of a key (a Python \<^verbatim>\<open>dict\<close> has one binding per key).
  Numbers are kept as integers: the handlers only test them for truthiness and pass
  them on.
\<close>

datatype json =
    JNull
  | JBool bool
  | JNum int
  | JStr string
  | JArr "json list"
  | JObj "(string \<times> json) list"

text \<open>
  The exceptions the handlers can meet. \<^verbatim>\<open>HTTPException\<close> carries its status code and its
  detail; \<^verbatim>\<open>KeyError\<close> carries the missing key. All of them are subclasses of Python's
  \<^verbatim>\<open>Exception\<close>, so an \<^verbatim>\<open>except Exception\<close> clause catches every one of them.
\<close>

datatype exc =
    HTTPException nat json
  | KeyError json
  | TypeError
  | IndexError
  | AttributeError
  | ValidationError

text \<open>
  The call \<^verbatim>\<open>HTTPException(status_code=c, detail=d)\<close>: the constructor replaces a detail
  \<^verbatim>\<open>None\<close> by the phrase of the status code. The source raises with the codes 400, 404 and
  500 only.
\<close>

definition status_phrase :: "nat \<Rightarrow> string" where
  "status_phrase c =
     (if c = 400 then ''Bad Request''
      else if c = 404 then ''Not Found''
      else if c = 500 then ''Internal Server Error''
      else [])"

definition http_exception :: "nat \<Rightarrow> json \<Rightarrow> exc" where
  "http_exception c d = HTTPException c (if d = JNull then JStr (status_phrase c) else d)"

definition bind_exc :: "exc + 'a \<Rightarrow> ('a \<Rightarrow> exc + 'b) \<Rightarrow> exc + 'b" where
  "bind_exc m f = (case m of Inl e \<Rightarrow> Inl e | Inr x \<Rightarrow> f x)"

text \<open>Python truthiness (\<^verbatim>\<open>if x:\<close>, \<^verbatim>\<open>not x\<close>) of a decoded value.\<close>

fun truthy :: "json \<Rightarrow> bool" where
  "truthy JNull = False"
| "truthy (JBool b) = b"
| "truthy (JNum n) = (n \<noteq> 0)"
| "truthy (JStr s) = (s \<noteq> [])"
| "truthy (JArr xs) = (xs \<noteq> [])"
| "truthy (JObj kvs) = (kvs \<noteq> [])"

text \<open>An \<^verbatim>\<open>Optional[str]\<close> request field as a Python value: \<^verbatim>\<open>None\<close> or a \<^verbatim>\<open>str\<close>.\<close>

fun opt_json :: "string option \<Rightarrow> json" where
  "opt_json None = JNull"
| "opt_json (Some s) = JStr s"

text \<open>\<^verbatim>\<open>d[k] = v\<close> on a \<^verbatim>\<open>dict\<close>: replace the binding in place, or append a new one.\<close>

fun dict_set :: "(string \<times> json) list \<Rightarrow> string \<Rightarrow> json \<Rightarrow> (string \<times> json) list" where
  "dict_set [] k v = [(k, v)]"
| "dict_set ((k', v') # kvs) k v =
     (if k' = k then (k, v) # kvs else (k', v') # dict_set kvs k v)"

text \<open>\<^verbatim>\<open>k in x\<close> for a \<^verbatim>\<open>str\<close> key: key membership, element membership or substring test.\<close>

fun py_in :: "string \<Rightarrow> json \<Rightarrow> exc + bool" where
  "py_in k (JObj kvs) = Inr (k \<in> set (map fst kvs))"
| "py_in k (JArr xs) = Inr (JStr k \<in> set xs)"
| "py_in k (JStr s) = Inr (sublist k s)"
| "py_in k JNull = Inl TypeError"
| "py_in k (JBool b) = Inl TypeError"
| "py_in k (JNum n) = Inl TypeError"

text \<open>\<^verbatim>\<open>x[k]\<close> for a \<^verbatim>\<open>str\<close> key.\<close>

fun py_getitem :: "json \<Rightarrow> string \<Rightarrow> exc + json" where
  "py_getitem (JObj kvs) k =
     (case map_of kvs k of None \<Rightarrow> Inl (KeyError (JStr k)) | Some v \<Rightarrow> Inr v)"
| "py_getitem x k = Inl TypeError"

text \<open>\<^verbatim>\<open>x[0]\<close>. The keys of a decoded \<^verbatim>\<open>dict\<close> are strings, so \<^verbatim>\<open>0\<close> is never one of them.\<close>

fun py_getitem0 :: "json \<Rightarrow> exc + json" where
  "py_getitem0 (JArr xs) = (case xs of [] \<Rightarrow> Inl IndexError | x # _ \<Rightarrow> Inr x)"
| "py_getitem0 (JStr s) = (case s of [] \<Rightarrow> Inl IndexError | c # _ \<Rightarrow> Inr (JStr [c]))"
| "py_getitem0 (JObj kvs) = Inl (KeyError (JNum 0))"
| "py_getitem0 x = Inl TypeError"

text \<open>\<^verbatim>\<open>x.get(k, default)\<close>: only a \<^verbatim>\<open>dict\<close> has the method.\<close>

fun py_get :: "json \<Rightarrow> string \<Rightarrow> json \<Rightarrow> exc + json" where
  "py_get (JObj kvs) k d = Inr (case map_of kvs k of None \<Rightarrow> d | Some v \<Rightarrow> v)"
| "py_get x k d = Inl AttributeError"

text \<open>\<^verbatim>\<open>for env in x\<close>: the elements of a list, the keys of a dict, the characters of a string.\<close>

fun py_iter :: "json \<Rightarrow> exc + json list" where
  "py_iter (JArr xs) = Inr xs"
| "py_iter (JObj kvs) = Inr (map (\<lambda>kv. JStr (fst kv)) kvs)"
| "py_iter (JStr s) = Inr (map (\<lambda>c. JStr [c]) s)"
| "py_iter x = Inl TypeError"

text \<open>
  \<^verbatim>\<open>x.lower()\<close>: only a \<^verbatim>\<open>str\<close> has the method. The letters \<^verbatim>\<open>A\<close> to \<^verbatim>\<open>Z\<close> are mapped to
  \<^verbatim>\<open>a\<close> to \<^verbatim>\<open>z\<close>; every other character is kept.
\<close>

definition lower_char :: "char \<Rightarrow> char" where
  "lower_char c =
     (case map_of (zip ''ABCDEFGHIJKLMNOPQRSTUVWXYZ'' ''abcdefghijklmnopqrstuvwxyz'') c of
        None \<Rightarrow> c | Some d \<Rightarrow> d)"

fun py_lower :: "json \<Rightarrow> exc + string" where
  "py_lower (JStr s) = Inr (map lower_char s)"
| "py_lower x = Inl AttributeError"

section \<open>The upstream endpoint\<close>

text \<open>
  What \<^verbatim>\<open>requests.post\<close> and the calls on its response give back. Either the request
  raises a \<^verbatim>\<open>RequestException\<close> (with its message), or a response arrives: the status code,
  the message of the \<^verbatim>\<open>HTTPError\<close> that \<^verbatim>\<open>raise_for_status()\<close> raises for a 4xx or 5xx
  status, and the result of \<^verbatim>\<open>response.json()\<close>, which is the decoded body or the message of
  the \<^verbatim>\<open>JSONDecodeError\<close> (a \<^verbatim>\<open>RequestException\<close> in the \<^verbatim>\<open>requests\<close> library).
\<close>

record http_response =
  status_code :: nat
  http_error :: string
  json_body :: "string + json"

datatype outcome = RequestFault string | Responded http_response

text \<open>
  The upstream answers a posted payload, possibly depending on the payloads posted before.
  The list of posted payloads is the state every handler threads through.
\<close>

type_synonym upstream = "json list \<Rightarrow> json \<Rightarrow> outcome"

subsection \<open>\<^verbatim>\<open>RailwayClient.execute_query\<close>\<close>

text \<open>The JSON body that is posted: \<^verbatim>\<open>variables\<close> is added only when it is truthy.\<close>

definition query_payload :: "string \<Rightarrow> json \<Rightarrow> json" where
  "query_payload query variables =
     (let payload = [(''query'', JStr query)]
      in JObj (if truthy variables then dict_set payload ''variables'' variables else payload))"

definition execute_query ::
  "upstream \<Rightarrow> string \<Rightarrow> json \<Rightarrow> json list \<Rightarrow> (exc + json) \<times> json list" where
  "execute_query up query variables log =
     (let payload = query_payload query variables
      in (case up log payload of
            RequestFault msg \<Rightarrow>
              Inl (http_exception 500 (JStr (''Railway API error: '' @ msg)))
          | Responded response \<Rightarrow>
              if 400 \<le> status_code response \<and> status_code response < 600
              then Inl (http_exception 500 (JStr (''Railway API error: '' @ http_error response)))
              else (case json_body response of
                      Inl msg \<Rightarrow> Inl (http_exception 500 (JStr (''Railway API error: '' @ msg)))
                    | Inr result \<Rightarrow>
                        bind_exc (py_in ''errors'' result) (\<lambda>has_errors.
                          if has_errors
                          then bind_exc (py_getitem result ''errors'') (\<lambda>errors.
                                 Inl (http_exception 400 errors))
                          else py_get result ''data'' (JObj []))),
          log @ [payload]))"

text \<open>Upstreams for concrete runs: one that always gives the same outcome, and a reply.\<close>

definition always :: "outcome \<Rightarrow> upstream" where
  "always out log payload = out"

definition reply :: "nat \<Rightarrow> json \<Rightarrow> outcome" where
  "reply code body = Responded \<lparr>status_code = code, http_error = [], json_body = Inr body\<rparr>"

text \<open>
  The specification's condition on a decoded body: it is a mapping whose \<^verbatim>\<open>errors\<close> entry
  is a non-empty sequence.
\<close>

definition spec_nonempty_errors :: "json \<Rightarrow> bool" where
  "spec_nonempty_errors body =
     (case body of
        JObj kvs \<Rightarrow> (case map_of kvs ''errors'' of Some (JArr (e # es)) \<Rightarrow> True | _ \<Rightarrow> False)
      | _ \<Rightarrow> False)"

section \<open>Request and response models\<close>

record ServiceCreateRequest =
  project_id :: string
  repo :: string
  service_name :: "string option"
  root_directory :: "string option"

text \<open>
  The \<^verbatim>\<open>variables\<close> of a \<^verbatim>\<open>VariableSetRequest\<close> are the items of its \<^verbatim>\<open>dict\<close>, in insertion
  order.
\<close>

record VariableSetRequest =
  project_id :: string
  service_id :: string
  environment_id :: "string option"
  variables :: "(string \<times> string) list"

record DeploymentTriggerRequest =
  project_id :: string
  service_id :: string
  environment_id :: "string option"

record ServiceResponse =
  id' :: string
  name :: string
  created_at :: string
  status :: string

record VariableResponse =
  success :: bool
  variables_set :: "string list"
  errors :: "string list"

text \<open>Joins the lines of a triple-quoted Python string literal.\<close>

fun py_lines :: "string list \<Rightarrow> string" where
  "py_lines [] = []"
| "py_lines [l] = l"
| "py_lines (l # ls) = l @ CHR 0x0A # py_lines ls"

section \<open>\<^verbatim>\<open>create_service\<close>\<close>

definition serviceCreate_mutation :: string where
  "serviceCreate_mutation = py_lines
     ['''',
      ''    mutation serviceCreate($input: ServiceCreateInput!) {'',
      ''      serviceCreate(input: $input) {'',
      ''        id'',
      ''        name'',
      ''        createdAt'',
      ''      }'',
      ''    }'',
      ''    '']"

text \<open>The input object built before the call (\<^verbatim>\<open>service_input\<close>).\<close>

definition service_input :: "ServiceCreateRequest \<Rightarrow> (string \<times> json) list" where
  "service_input request =
     (let d0 = [(''projectId'', JStr (ServiceCreateRequest.project_id request)),
                (''source'', JObj [(''repo'', JStr (repo request))])];
          d1 = (if truthy (opt_json (service_name request))
                then dict_set d0 ''name'' (opt_json (service_name request)) else d0);
          d2 = (if truthy (opt_json (root_directory request))
                then dict_set d1 ''rootDirectory'' (opt_json (root_directory request)) else d1)
      in d2)"

text \<open>
  \<^verbatim>\<open>ServiceResponse(...)\<close>: the model's fields are declared \<^verbatim>\<open>str\<close>; a value of another
  type fails validation.
\<close>

fun make_ServiceResponse :: "json \<Rightarrow> json \<Rightarrow> json \<Rightarrow> json \<Rightarrow> exc + ServiceResponse" where
  "make_ServiceResponse (JStr i) (JStr n) (JStr c) (JStr s) =
     Inr \<lparr>id' = i, name = n, created_at = c, status = s\<rparr>"
| "make_ServiceResponse i n c s = Inl ValidationError"

text \<open>
  The handler takes the upstream, the rendering \<^verbatim>\<open>str(e)\<close> of an exception (library code),
  the request and the payloads posted so far.
\<close>

definition create_service ::
  "upstream \<Rightarrow> (exc \<Rightarrow> string) \<Rightarrow> ServiceCreateRequest \<Rightarrow> json list
   \<Rightarrow> (exc + ServiceResponse) \<times> json list" where
  "create_service up str_exc request log =
     (case execute_query up serviceCreate_mutation
             (JObj [(''input'', JObj (service_input request))]) log of
        (r, log') \<Rightarrow>
          (case bind_exc r (\<lambda>result.
                  bind_exc (py_getitem result ''serviceCreate'') (\<lambda>service_data.
                  bind_exc (py_getitem service_data ''id'') (\<lambda>i.
                  bind_exc (py_get service_data ''name'' (JStr ''unnamed'')) (\<lambda>n.
                  bind_exc (py_getitem service_data ''createdAt'') (\<lambda>c.
                  make_ServiceResponse i n c (JStr ''created'')))))) of
             Inl e \<Rightarrow>
               Inl (http_exception 500 (JStr (''Service creation failed: '' @ str_exc e)))
           | Inr response \<Rightarrow> Inr response,
           log'))"

section \<open>\<^verbatim>\<open>set_variables\<close>\<close>

definition project_query :: string where
  "project_query = py_lines
     ['''',
      ''        query project($id: String!) {'',
      ''          project(id: $id) {'',
      ''            environments {'',
      ''              edges {'',
      ''                node {'',
      ''                  id'',
      ''                  name'',
      ''                }'',
      ''              }'',
      ''            }'',
      ''          }'',
      ''        }'',
      ''        '']"

definition variableUpsert_mutation :: string where
  "variableUpsert_mutation = py_lines
     ['''',
      ''        mutation variableUpsert($input: VariableUpsertInput!) {'',
      ''          variableUpsert(input: $input)'',
      ''        }'',
      ''        '']"

text \<open>
  The loop that looks for the production environment: the first entry whose lower-cased
  name is \<^verbatim>\<open>production\<close> sets \<^verbatim>\<open>environment_id\<close> and ends the loop.
\<close>

fun find_production :: "json list \<Rightarrow> json \<Rightarrow> exc + json" where
  "find_production [] env_id = Inr env_id"
| "find_production (env # rest) env_id =
     (case py_getitem env ''node'' of
        Inl e \<Rightarrow> Inl e
      | Inr node \<Rightarrow>
          (case py_getitem node ''name'' of
             Inl e \<Rightarrow> Inl e
           | Inr nm \<Rightarrow>
               (case py_lower nm of
                  Inl e \<Rightarrow> Inl e
                | Inr l \<Rightarrow>
                    if l = ''production''
                    then bind_exc (py_getitem env ''node'') (\<lambda>node'. py_getitem node' ''id'')
                    else find_production rest env_id)))"

text \<open>The body of the \<^verbatim>\<open>try\<close> block after the query has returned \<^verbatim>\<open>result\<close>.\<close>

definition resolve_environment :: "json \<Rightarrow> json \<Rightarrow> exc + json" where
  "resolve_environment result env_id =
     bind_exc (py_getitem result ''project'') (\<lambda>project.
     bind_exc (py_getitem project ''environments'') (\<lambda>envs.
     bind_exc (py_getitem envs ''edges'') (\<lambda>environments.
     bind_exc (py_iter environments) (\<lambda>items.
     bind_exc (find_production items env_id) (\<lambda>env_id'.
       if \<not> truthy env_id' \<and> truthy environments
       then bind_exc (py_getitem0 environments) (\<lambda>env0.
            bind_exc (py_getitem env0 ''node'') (\<lambda>node. py_getitem node ''id''))
       else Inr env_id')))))"

definition upsert_variables :: "VariableSetRequest \<Rightarrow> json \<Rightarrow> string \<Rightarrow> string \<Rightarrow> json" where
  "upsert_variables request env_id key val =
     JObj [(''input'', JObj
       [(''projectId'', JStr (VariableSetRequest.project_id request)),
        (''environmentId'', env_id),
        (''serviceId'', JStr (VariableSetRequest.service_id request)),
        (''name'', JStr key),
        (''value'', JStr val)])]"

text \<open>
  One pass of the loop body for the pair \<^verbatim>\<open>(key, value)\<close>: \<^verbatim>\<open>Inr key\<close> to append to
  \<^verbatim>\<open>success_vars\<close>, or \<^verbatim>\<open>Inl error_msg\<close> to append to \<^verbatim>\<open>error_vars\<close>.
\<close>

definition upsert_one ::
  "upstream \<Rightarrow> (exc \<Rightarrow> string) \<Rightarrow> VariableSetRequest \<Rightarrow> json \<Rightarrow> string \<times> string
   \<Rightarrow> json list \<Rightarrow> (string + string) \<times> json list" where
  "upsert_one up str_exc request env_id kv log =
     (case execute_query up variableUpsert_mutation
             (upsert_variables request env_id (fst kv) (snd kv)) log of
        (r, log') \<Rightarrow>
          (case bind_exc r (\<lambda>result. py_get result ''variableUpsert'' JNull) of
             Inr v \<Rightarrow>
               if v = JBool True then Inr (fst kv)
               else Inl (''Failed to set '' @ fst kv @ '': Unexpected response'')
           | Inl e \<Rightarrow> Inl (''Failed to set '' @ fst kv @ '': '' @ str_exc e),
           log'))"

fun upsert_loop ::
  "upstream \<Rightarrow> (exc \<Rightarrow> string) \<Rightarrow> VariableSetRequest \<Rightarrow> json \<Rightarrow> (string \<times> string) list
   \<Rightarrow> string list \<times> string list \<times> json list \<Rightarrow> string list \<times> string list \<times> json list" where
  "upsert_loop up str_exc request env_id [] st = st"
| "upsert_loop up str_exc request env_id (kv # rest) (success_vars, error_vars, log) =
     (case upsert_one up str_exc request env_id kv log of
        (Inr key, log') \<Rightarrow>
          upsert_loop up str_exc request env_id rest
            (success_vars @ [key], error_vars, log')
      | (Inl error_msg, log') \<Rightarrow>
          upsert_loop up str_exc request env_id rest
            (success_vars, error_vars @ [error_msg], log'))"

text \<open>The loop over the variables and the final response.\<close>

definition set_each_variable ::
  "upstream \<Rightarrow> (exc \<Rightarrow> string) \<Rightarrow> VariableSetRequest \<Rightarrow> json \<Rightarrow> json list
   \<Rightarrow> VariableResponse \<times> json list" where
  "set_each_variable up str_exc request env_id log =
     (case upsert_loop up str_exc request env_id (variables request) ([], [], log) of
        (success_vars, error_vars, log') \<Rightarrow>
          (\<lparr>success = (length error_vars = 0),
            variables_set = success_vars,
            errors = error_vars\<rparr>, log'))"

definition set_variables ::
  "upstream \<Rightarrow> (exc \<Rightarrow> string) \<Rightarrow> VariableSetRequest \<Rightarrow> json list
   \<Rightarrow> VariableResponse \<times> json list" where
  "set_variables up str_exc request log =
     (let env_id = opt_json (VariableSetRequest.environment_id request)
      in if \<not> truthy env_id
         then (case execute_query up project_query
                      (JObj [(''id'', JStr (VariableSetRequest.project_id request))]) log of
                 (r, log') \<Rightarrow>
                   (case bind_exc r (\<lambda>result. resolve_environment result env_id) of
                      Inl e \<Rightarrow>
                        (\<lparr>success = False,
                          variables_set = [],
                          errors = [''Failed to get environment ID: '' @ str_exc e]\<rparr>, log')
                    | Inr env_id' \<Rightarrow>
                        set_each_variable up str_exc request env_id' log'))
         else set_each_variable up str_exc request env_id log)"

section \<open>\<^verbatim>\<open>trigger_deployment\<close>\<close>

definition get_deployment_query :: string where
  "get_deployment_query = py_lines
     ['''',
      ''    query deployments($first: Int, $input: DeploymentListInput!) {'',
      ''      deployments(first: $first, input: $input) {'',
      ''        edges {'',
      ''          node {'',
      ''            id'',
      ''            status'',
      ''            createdAt'',
      ''            url'',
      ''            canRedeploy'',
      ''          }'',
      ''        }'',
      ''      }'',
      ''    }'',
      ''    '']"

definition restart_mutation :: string where
  "restart_mutation = py_lines
     ['''',
      ''        mutation deploymentRestart($deploymentId: String!) {'',
      ''          deploymentRestart(id: $deploymentId)'',
      ''        }'',
      ''        '']"

definition get_variables :: "DeploymentTriggerRequest \<Rightarrow> json" where
  "get_variables request =
     JObj [(''first'', JNum 1),
           (''input'', JObj
             [(''projectId'', JStr (DeploymentTriggerRequest.project_id request)),
              (''serviceId'', JStr (DeploymentTriggerRequest.service_id request)),
              (''environmentId'', opt_json (DeploymentTriggerRequest.environment_id request))])]"

text \<open>The body of the \<^verbatim>\<open>try\<close> block: what it returns or raises, and the payloads posted.\<close>

definition trigger_deployment_try ::
  "upstream \<Rightarrow> DeploymentTriggerRequest \<Rightarrow> json list \<Rightarrow> (exc + json) \<times> json list" where
  "trigger_deployment_try up request log =
     (case execute_query up get_deployment_query (get_variables request) log of
        (r, log1) \<Rightarrow>
          (case bind_exc r (\<lambda>result.
                  bind_exc (py_getitem result ''deployments'') (\<lambda>d. py_getitem d ''edges'')) of
             Inl e \<Rightarrow> (Inl e, log1)
           | Inr deployments \<Rightarrow>
               if \<not> truthy deployments
               then (Inl (http_exception 404 (JStr ''No deployments found for this service'')),
                     log1)
               else
                 (case bind_exc (py_getitem0 deployments) (\<lambda>d0.
                         bind_exc (py_getitem d0 ''node'') (\<lambda>node. py_getitem node ''id'')) of
                    Inl e \<Rightarrow> (Inl e, log1)
                  | Inr latest_deployment_id \<Rightarrow>
                      (case execute_query up restart_mutation
                              (JObj [(''deploymentId'', latest_deployment_id)]) log1 of
                         (r2, log2) \<Rightarrow>
                           (bind_exc r2 (\<lambda>restart_result.
                              bind_exc (py_getitem restart_result ''deploymentRestart'')
                                (\<lambda>restarted.
                                   Inr (JObj [(''success'', JBool True),
                                              (''deployment_id'', latest_deployment_id),
                                              (''restarted'', restarted)]))),
                            log2)))))"

text \<open>The handler: the \<^verbatim>\<open>try\<close> block under its \<^verbatim>\<open>except Exception\<close> clause.\<close>

definition trigger_deployment ::
  "upstream \<Rightarrow> (exc \<Rightarrow> string) \<Rightarrow> DeploymentTriggerRequest \<Rightarrow> json list
   \<Rightarrow> (exc + json) \<times> json list" where
  "trigger_deployment up str_exc request log =
     (case trigger_deployment_try up request log of
        (Inl e, log') \<Rightarrow>
          (Inl (http_exception 500 (JStr (''Deployment trigger failed: '' @ str_exc e))), log')
      | (Inr response, log') \<Rightarrow> (Inr response, log'))"

section \<open>\<^verbatim>\<open>generate_secret_key\<close>\<close>

text \<open>
  \<^verbatim>\<open>secrets.token_hex(n)\<close> draws \<^verbatim>\<open>n\<close> bytes from the system's entropy source and writes each
  as two lower-case hexadecimal digits. The entropy source is the function \<open>rnd\<close>, which
  gives the byte drawn at each position.
\<close>

definition hexdigits :: string where
  "hexdigits = ''0123456789abcdef''"

definition hexlify :: "8 word list \<Rightarrow> string" where
  "hexlify bs = concat (map (\<lambda>b. [hexdigits ! (unat b div 16), hexdigits ! (unat b mod 16)]) bs)"

definition token_bytes :: "(nat \<Rightarrow> 8 word) \<Rightarrow> nat \<Rightarrow> 8 word list" where
  "token_bytes rnd n = map rnd [0..<n]"

definition token_hex :: "(nat \<Rightarrow> 8 word) \<Rightarrow> nat \<Rightarrow> string" where
  "token_hex rnd n = hexlify (token_bytes rnd n)"

text \<open>
  The handler has no client argument. \<open>now\<close> is \<^verbatim>\<open>datetime.utcnow().isoformat()\<close>; the posted
  payloads are threaded through as for the other handlers.
\<close>

definition generate_secret_key ::
  "(nat \<Rightarrow> 8 word) \<Rightarrow> string \<Rightarrow> json list \<Rightarrow> json \<times> json list" where
  "generate_secret_key rnd now log =
     (let secret_key = token_hex rnd 32
      in (JObj [(''secret_key'', JStr secret_key),
                (''length'', JNum (int (length secret_key))),
                (''generated_at'', JStr now)],
          log))"

section \<open>Concrete runs and derived notions\<close>

text \<open>A rendering of exceptions for concrete runs.\<close>

definition fixed_str :: "exc \<Rightarrow> string" where
  "fixed_str e = ''e''"

text \<open>A decoded body whose deployment list is empty.\<close>

definition no_deployments :: json where
  "no_deployments = JObj [(''data'', JObj [(''deployments'', JObj [(''edges'', JArr [])])])]"

text \<open>The payload posted for one variable.\<close>

definition upsert_payload :: "VariableSetRequest \<Rightarrow> json \<Rightarrow> string \<times> string \<Rightarrow> json" where
  "upsert_payload request env_id kv =
     query_payload variableUpsert_mutation (upsert_variables request env_id (fst kv) (snd kv))"

text \<open>
  What the pass for the \<open>i\<close>-th variable yields when the loop starts with the posted payloads
  \<open>log\<close>: the passes before it have posted one payload each.
\<close>

definition nth_outcome ::
  "upstream \<Rightarrow> (exc \<Rightarrow> string) \<Rightarrow> VariableSetRequest \<Rightarrow> json \<Rightarrow> (string \<times> string) list
   \<Rightarrow> json list \<Rightarrow> nat \<Rightarrow> string + string" where
  "nth_outcome up str_exc request env_id vars log i =
     fst (upsert_one up str_exc request env_id (vars ! i)
            (log @ map (upsert_payload request env_id) (take i vars)))"

text \<open>The payload of the environment look-up.\<close>

definition lookup_payload :: "VariableSetRequest \<Rightarrow> json" where
  "lookup_payload request =
     query_payload project_query (JObj [(''id'', JStr (VariableSetRequest.project_id request))])"

text \<open>
  The \<^verbatim>\<open>data\<close> of a well-formed answer to \<^verbatim>\<open>project_query\<close>: the environments, each with
  its id and its name, in the upstream's order.
\<close>

definition edge_of :: "json \<times> string \<Rightarrow> json" where
  "edge_of e = JObj [(''node'', JObj [(''id'', fst e), (''name'', JStr (snd e))])]"

definition environments_result :: "(json \<times> string) list \<Rightarrow> json" where
  "environments_result envs =
     JObj [(''project'', JObj [(''environments'', JObj [(''edges'', JArr (map edge_of envs))])])]"

text \<open>
  An upstream that accepts every upsert except the second payload posted, which meets a
  transport fault.
\<close>

definition second_fails :: upstream where
  "second_fails log payload =
     (if length log = 1 then RequestFault ''down''
      else reply 200 (JObj [(''data'', JObj [(''variableUpsert'', JBool True)])]))"

text \<open>Requests and environment lists for concrete runs.\<close>

definition one_variable :: VariableSetRequest where
  "one_variable = \<lparr>VariableSetRequest.project_id = ''p'', service_id = ''s'',
                    environment_id = None, variables = [(''K'', ''V'')]\<rparr>"

definition no_variables :: VariableSetRequest where
  "no_variables = \<lparr>VariableSetRequest.project_id = ''p'', service_id = ''s'',
                   environment_id = None, variables = []\<rparr>"

definition three_variables :: VariableSetRequest where
  "three_variables = \<lparr>VariableSetRequest.project_id = ''p'', service_id = ''s'',
                      environment_id = Some ''e1'',
                      variables = [(''A'', ''1''), (''B'', ''2''), (''C'', ''3'')]\<rparr>"

definition staging_then_production :: "(json \<times> string) list" where
  "staging_then_production = [(JStr ''a'', ''staging''), (JStr ''b'', ''Production'')]"

definition production_without_id :: "(json \<times> string) list" where
  "production_without_id = [(JStr ''a'', ''staging''), (JStr [], ''production'')]"

definition answers :: "json \<Rightarrow> upstream" where
  "answers d = always (reply 200 (JObj [(''data'', d)]))"

definition empty_name_request :: ServiceCreateRequest where
  "empty_name_request = \<lparr>ServiceCreateRequest.project_id = ''p'', repo = ''o/r'',
                          service_name = Some [], root_directory = None\<rparr>"

definition named_request :: ServiceCreateRequest where
  "named_request = \<lparr>ServiceCreateRequest.project_id = ''p'', repo = ''o/r'',
                     service_name = Some ''api'', root_directory = None\<rparr>"

text \<open>An entropy source for concrete runs: the byte at position \<open>i\<close> is \<open>17 * i\<close>.\<close>

definition counting_bytes :: "nat \<Rightarrow> 8 word" where
  "counting_bytes i = of_nat (17 * i)"

section \<open>Properties of the adapter\<close>

lemma http_exception_cases:
  "http_exception c d = HTTPException c (if d = JNull then JStr (status_phrase c) else d)"
  by (simp add: http_exception_def)

lemma in_keys_map_of: "k \<in> set (map fst kvs) \<Longrightarrow> \<exists>v. map_of kvs k = Some v"
  by (induction kvs) auto

lemma map_of_in_keys: "map_of kvs k = Some v \<Longrightarrow> k \<in> set (map fst kvs)"
  by (induction kvs) (auto split: if_splits)

lemma execute_query_log: "snd (execute_query up q v log) = log @ [query_payload q v]"
  by (simp add: execute_query_def Let_def)

lemma execute_query_2xx:
  assumes "up log (query_payload q v) = Responded r" "status_code r < 400" "json_body r = Inr body"
  shows "fst (execute_query up q v log) =
     bind_exc (py_in ''errors'' body) (\<lambda>has_errors.
        if has_errors then bind_exc (py_getitem body ''errors'') (\<lambda>errors. Inl (http_exception 400 errors))
        else py_get body ''data'' (JObj []))"
  using assms by (simp add: execute_query_def Let_def)

lemma unwrap_400_iff:
  "(\<exists>d. bind_exc (py_in ''errors'' body) (\<lambda>has_errors.
        if has_errors then bind_exc (py_getitem body ''errors'') (\<lambda>errors. Inl (http_exception 400 errors))
        else py_get body ''data'' (JObj [])) = Inl (HTTPException 400 d)) \<longleftrightarrow>
   (\<exists>kvs. body = JObj kvs \<and> ''errors'' \<in> set (map fst kvs))"
proof (cases body)
  case (JObj kvs)
  show ?thesis
  proof (cases "''errors'' \<in> set (map fst kvs)")
    case True
    from in_keys_map_of [OF True] obtain x where "map_of kvs ''errors'' = Some x" ..
    with True JObj show ?thesis by (simp add: bind_exc_def http_exception_def)
  next
    case False
    with JObj show ?thesis by (simp add: bind_exc_def)
  qed
next
  case (JStr s)
  then show ?thesis by (cases "sublist ''errors'' s") (simp_all add: bind_exc_def)
next
  case (JArr xs)
  then show ?thesis by (cases "JStr ''errors'' \<in> set xs") (simp_all add: bind_exc_def)
qed (simp_all add: bind_exc_def)

lemma unwrap_errors_value:
  assumes "map_of kvs ''errors'' = Some errs"
  shows "bind_exc (py_in ''errors'' (JObj kvs)) (\<lambda>has_errors.
        if has_errors then bind_exc (py_getitem (JObj kvs) ''errors'') (\<lambda>errors. Inl (http_exception 400 errors))
        else py_get (JObj kvs) ''data'' (JObj [])) = Inl (http_exception 400 errs)"
proof -
  have "''errors'' \<in> set (map fst kvs)" using assms by (rule map_of_in_keys)
  with assms show ?thesis by (simp add: bind_exc_def)
qed

lemma unwrap_data:
  assumes "''errors'' \<notin> set (map fst kvs)"
  shows "bind_exc (py_in ''errors'' (JObj kvs)) (\<lambda>has_errors.
        if has_errors then bind_exc (py_getitem (JObj kvs) ''errors'') (\<lambda>errors. Inl (http_exception 400 errors))
        else py_get (JObj kvs) ''data'' (JObj [])) =
     Inr (case map_of kvs ''data'' of None \<Rightarrow> JObj [] | Some d \<Rightarrow> d)"
  using assms by (simp add: bind_exc_def)

text \<open>
  The detail of the 400-class exception is what the body binds to \<^verbatim>\<open>errors\<close>, and the phrase
  of the status code when that is \<^verbatim>\<open>null\<close>.
\<close>

lemma execute_query_errors_detail:
  assumes "up log (query_payload q v) = Responded r"
    and "status_code r < 400"
    and "json_body r = Inr (JObj kvs)"
    and "map_of kvs ''errors'' = Some errs"
  shows "fst (execute_query up q v log) =
           Inl (HTTPException 400 (if errs = JNull then JStr ''Bad Request'' else errs))"
  unfolding execute_query_2xx [of up log q v r, OF assms(1) assms(2) assms(3)]
    unwrap_errors_value [OF assms(4)]
  by (simp add: http_exception_def status_phrase_def)

text \<open>
  Claim C2, as the code has it. On a 2xx response with a decoded body, the adapter fails with
  the 400-class \<^verbatim>\<open>HTTPException\<close> exactly when the body is a mapping that has the key
  \<^verbatim>\<open>errors\<close>, whether the sequence bound to it is empty or not, and whether or not \<^verbatim>\<open>data\<close>
  is present too.
\<close>

theorem execute_query_graphql_error_iff:
  assumes "up log (query_payload q v) = Responded r"
    and "200 \<le> status_code r \<and> status_code r < 300"
    and "json_body r = Inr body"
  shows "(\<exists>d. fst (execute_query up q v log) = Inl (HTTPException 400 d)) \<longleftrightarrow>
         (\<exists>kvs. body = JObj kvs \<and> ''errors'' \<in> set (map fst kvs))"
proof -
  have lt: "status_code r < 400" using assms(2) by simp
  note e = execute_query_2xx [of up log q v r, OF assms(1) lt assms(3)]
  show ?thesis unfolding e by (rule unwrap_400_iff)
qed

theorem execute_query_graphql_error_iff_witness:
  "\<exists>d. fst (execute_query
             (always (reply 200
                (JObj [(''data'', JObj [(''x'', JNum 1)]), (''errors'', JArr [JStr ''boom''])])))
             ''q'' JNull []) = Inl (HTTPException 400 d)"
proof -
  let ?kvs = "[(''data'', JObj [(''x'', JNum 1)]), (''errors'', JArr [JStr ''boom''])]"
  let ?b = "JObj ?kvs"
  let ?r = "\<lparr>status_code = 200, http_error = [], json_body = Inr ?b\<rparr>"
  have 1: "always (reply 200 ?b) [] (query_payload ''q'' JNull) = Responded ?r"
    by (simp add: always_def reply_def)
  have 2: "200 \<le> status_code ?r \<and> status_code ?r < 300" by simp
  have 3: "json_body ?r = Inr ?b" by simp
  have "?b = JObj ?kvs \<and> ''errors'' \<in> set (map fst ?kvs)" by simp
  then have 4: "\<exists>kvs. ?b = JObj kvs \<and> ''errors'' \<in> set (map fst kvs)" by (rule exI)
  from execute_query_graphql_error_iff
         [of "always (reply 200 ?b)" "[]" "''q''" JNull ?r ?b, OF 1 2 3] 4
  show ?thesis by (rule iffD2)
qed

text \<open>
  Claim C2 as stated fails: a 2xx body whose \<^verbatim>\<open>errors\<close> entry is the empty sequence has no
  non-empty \<^verbatim>\<open>errors\<close> sequence, and the adapter fails with the 400-class error all the same.
\<close>

theorem execute_query_empty_errors_counterexample:
  "\<not> spec_nonempty_errors (JObj [(''errors'', JArr []), (''data'', JObj [])]) \<and>
   fst (execute_query (always (reply 200 (JObj [(''errors'', JArr []), (''data'', JObj [])]))) ''q'' JNull [])
     = Inl (HTTPException 400 (JArr []))"
  by (simp add: spec_nonempty_errors_def execute_query_def always_def reply_def query_payload_def
        bind_exc_def http_exception_def)

text \<open>
  Claim C3, as the code has it. On a 2xx response whose decoded body is a mapping and does
  not make the adapter fail with the 400-class GraphQL error, the adapter returns what the
  body binds to \<^verbatim>\<open>data\<close>, and the empty mapping when the body has no \<^verbatim>\<open>data\<close> entry.
\<close>

theorem execute_query_returns_data:
  assumes "up log (query_payload q v) = Responded r"
    and "200 \<le> status_code r \<and> status_code r < 300"
    and "json_body r = Inr (JObj kvs)"
    and "\<forall>d. fst (execute_query up q v log) \<noteq> Inl (HTTPException 400 d)"
  shows "fst (execute_query up q v log) =
           Inr (case map_of kvs ''data'' of None \<Rightarrow> JObj [] | Some d \<Rightarrow> d)"
proof -
  have lt: "status_code r < 400" using assms(2) by simp
  note e = execute_query_2xx [of up log q v r, OF assms(1) lt assms(3)]
  have "''errors'' \<notin> set (map fst kvs)"
  proof
    assume "''errors'' \<in> set (map fst kvs)"
    then have "\<exists>k. JObj kvs = JObj k \<and> ''errors'' \<in> set (map fst k)" by simp
    then have "\<exists>d. fst (execute_query up q v log) = Inl (HTTPException 400 d)"
      unfolding e unwrap_400_iff .
    with assms(4) show False by simp
  qed
  then show ?thesis unfolding e by (rule unwrap_data)
qed

theorem execute_query_returns_data_witness:
  "fst (execute_query (always (reply 200 (JObj [(''data'', JObj [(''x'', JNum 1)])]))) ''q'' JNull [])
     = Inr (JObj [(''x'', JNum 1)]) \<and>
   fst (execute_query (always (reply 200 (JObj []))) ''q'' JNull []) = Inr (JObj [])"
proof -
  let ?k1 = "[(''data'', JObj [(''x'', JNum 1)])]"
  let ?r1 = "\<lparr>status_code = 200, http_error = [], json_body = Inr (JObj ?k1)\<rparr>"
  let ?r2 = "\<lparr>status_code = 200, http_error = [], json_body = Inr (JObj [])\<rparr>"
  have a1: "always (reply 200 (JObj ?k1)) [] (query_payload ''q'' JNull) = Responded ?r1"
    by (simp add: always_def reply_def)
  have a2: "always (reply 200 (JObj [])) [] (query_payload ''q'' JNull) = Responded ?r2"
    by (simp add: always_def reply_def)
  have s1: "200 \<le> status_code ?r1 \<and> status_code ?r1 < 300" by simp
  have s2: "200 \<le> status_code ?r2 \<and> status_code ?r2 < 300" by simp
  have b1: "json_body ?r1 = Inr (JObj ?k1)" by simp
  have b2: "json_body ?r2 = Inr (JObj [])" by simp
  have n1: "\<forall>d. fst (execute_query (always (reply 200 (JObj ?k1))) ''q'' JNull []) \<noteq> Inl (HTTPException 400 d)"
    by (simp add: execute_query_def always_def reply_def query_payload_def bind_exc_def)
  have n2: "\<forall>d. fst (execute_query (always (reply 200 (JObj []))) ''q'' JNull []) \<noteq> Inl (HTTPException 400 d)"
    by (simp add: execute_query_def always_def reply_def query_payload_def bind_exc_def)
  from execute_query_returns_data [of "always (reply 200 (JObj ?k1))" "[]" "''q''" JNull ?r1 ?k1, OF a1 s1 b1 n1]
    execute_query_returns_data [of "always (reply 200 (JObj []))" "[]" "''q''" JNull ?r2 "[]", OF a2 s2 b2 n2]
  show ?thesis by simp
qed

text \<open>
  Claim C3 as stated fails: a 2xx body that is a list does not make the adapter fail with
  the 400-class GraphQL error, and the adapter returns neither a \<^verbatim>\<open>data\<close> field nor the empty
  mapping: \<^verbatim>\<open>result.get\<close> raises \<^verbatim>\<open>AttributeError\<close>.
\<close>

theorem execute_query_list_body_counterexample:
  "fst (execute_query (always (reply 200 (JArr []))) ''q'' JNull []) = Inl AttributeError"
  by (simp add: execute_query_def always_def reply_def query_payload_def bind_exc_def)

section \<open>Properties of \<^verbatim>\<open>trigger_deployment\<close>\<close>

lemma execute_query_pair:
  "execute_query up q v log = (fst (execute_query up q v log), log @ [query_payload q v])"
  using execute_query_log [of up q v log] by (simp add: prod_eq_iff)

lemma execute_query_reply_data:
  "fst (execute_query (always (reply 200 (JObj [(''data'', d)]))) q v log) = Inr d"
  by (simp add: execute_query_def http_exception_def always_def reply_def bind_exc_def)

lemma trigger_deployment_try_empty:
  assumes "fst (execute_query up get_deployment_query (get_variables request) log) = Inr result"
    and "py_getitem result ''deployments'' = Inr d"
    and "py_getitem d ''edges'' = Inr deployments"
    and "\<not> truthy deployments"
  shows "trigger_deployment_try up request log =
           (Inl (HTTPException 404 (JStr ''No deployments found for this service'')),
            log @ [query_payload get_deployment_query (get_variables request)])"
proof -
  have "execute_query up get_deployment_query (get_variables request) log =
          (Inr result, log @ [query_payload get_deployment_query (get_variables request)])"
    using execute_query_pair [of up get_deployment_query "get_variables request" log] assms(1)
    by simp
  then show ?thesis
    using assms(2-4) by (simp add: trigger_deployment_try_def http_exception_def bind_exc_def)
qed

text \<open>
  Whatever the upstream does, the handler never fails with a 404-class error: every
  exception of the \<^verbatim>\<open>try\<close> block leaves the handler as a 500-class one.
\<close>

lemma trigger_deployment_never_404:
  "fst (trigger_deployment up str_exc request log) \<noteq> Inl (HTTPException 404 d)"
  by (cases "trigger_deployment_try up request log" rule: prod.exhaust)
     (auto simp: trigger_deployment_def http_exception_def split: sum.splits)

text \<open>
  Claim C1 on the code. When the deployment list query returns an empty list, the
  \<^verbatim>\<open>try\<close> block raises the 404-class \<^verbatim>\<open>HTTPException\<close>, and the handler's own
  \<^verbatim>\<open>except Exception\<close> clause catches it: the handler fails with a 500-class error whose
  message quotes the 404 one. Only the list query has been posted; the restart mutation is
  not.
\<close>

theorem trigger_deployment_empty_list:
  assumes "fst (execute_query up get_deployment_query (get_variables request) log) = Inr result"
    and "py_getitem result ''deployments'' = Inr d"
    and "py_getitem d ''edges'' = Inr (JArr [])"
  shows "trigger_deployment up str_exc request log =
           (Inl (HTTPException 500 (JStr (''Deployment trigger failed: '' @
                   str_exc (HTTPException 404 (JStr ''No deployments found for this service''))))),
            log @ [query_payload get_deployment_query (get_variables request)])"
proof -
  have "\<not> truthy (JArr [])" by simp
  from trigger_deployment_try_empty [OF assms this]
  show ?thesis by (simp add: trigger_deployment_def http_exception_def)
qed

theorem trigger_deployment_empty_list_witness:
  "trigger_deployment (always (reply 200 no_deployments)) fixed_str
      \<lparr>DeploymentTriggerRequest.project_id = ''p'', service_id = ''s'', environment_id = None\<rparr> [] =
     (Inl (HTTPException 500 (JStr ''Deployment trigger failed: e'')),
      [query_payload get_deployment_query
         (get_variables \<lparr>DeploymentTriggerRequest.project_id = ''p'', service_id = ''s'',
            environment_id = None\<rparr>)])"
proof -
  let ?rq = "\<lparr>DeploymentTriggerRequest.project_id = ''p'', service_id = ''s'',
               environment_id = None\<rparr>"
  let ?res = "JObj [(''deployments'', JObj [(''edges'', JArr [])])]"
  have 1: "fst (execute_query (always (reply 200 no_deployments)) get_deployment_query
             (get_variables ?rq) []) = Inr ?res"
    unfolding no_deployments_def by (rule execute_query_reply_data)
  have 2: "py_getitem ?res ''deployments'' = Inr (JObj [(''edges'', JArr [])])" by simp
  have 3: "py_getitem (JObj [(''edges'', JArr [])]) ''edges'' = Inr (JArr [])" by simp
  from trigger_deployment_empty_list [of "always (reply 200 no_deployments)" ?rq "[]" ?res
      "JObj [(''edges'', JArr [])]" fixed_str, OF 1 2 3]
  show ?thesis by (simp add: fixed_str_def)
qed

section \<open>Properties of \<^verbatim>\<open>set_variables\<close>\<close>

lemma upsert_one_log:
  "snd (upsert_one up se rq env kv log) = log @ [upsert_payload rq env kv]"
  by (simp add: upsert_one_def upsert_payload_def execute_query_log split: prod.splits)
     (metis execute_query_log snd_conv)

lemma upsert_one_key:
  "fst (upsert_one up se rq env kv log) = Inr k \<Longrightarrow> k = fst kv"
  by (auto simp: upsert_one_def split: prod.splits sum.splits if_splits)

lemma upsert_one_cases:
  "upsert_one up se rq env kv log =
     (fst (upsert_one up se rq env kv log), log @ [upsert_payload rq env kv])"
  using upsert_one_log [of up se rq env kv log] by (simp add: prod_eq_iff)

lemma nth_outcome_0:
  "nth_outcome up se rq env (kv # rest) log 0 = fst (upsert_one up se rq env kv log)"
  by (simp add: nth_outcome_def)

lemma nth_outcome_Suc:
  "nth_outcome up se rq env (kv # rest) log (Suc i) =
     nth_outcome up se rq env rest (log @ [upsert_payload rq env kv]) i"
  by (simp add: nth_outcome_def)

lemma upt_Suc_shift: "[0..<Suc n] = 0 # map Suc [0..<n]"
  by (simp add: upt_conv_Cons map_Suc_upt del: upt_Suc)

text \<open>
  The loop, whatever the accumulators it starts with: the names of the passes that
  succeeded, the messages of those that failed, and one posted payload for every variable.
\<close>

lemma upsert_loop_char:
  "upsert_loop up se rq env vars (s, e, log) =
     (s @ map (\<lambda>i. fst (vars ! i))
            (filter (\<lambda>i. \<not> isl (nth_outcome up se rq env vars log i)) [0..<length vars]),
      e @ map (\<lambda>i. projl (nth_outcome up se rq env vars log i))
            (filter (\<lambda>i. isl (nth_outcome up se rq env vars log i)) [0..<length vars]),
      log @ map (upsert_payload rq env) vars)"
proof (induction vars arbitrary: s e log)
  case Nil
  show ?case by simp
next
  case (Cons kv rest)
  let ?o = "fst (upsert_one up se rq env kv log)"
  let ?log = "log @ [upsert_payload rq env kv]"
  have one: "upsert_one up se rq env kv log = (?o, ?log)" by (rule upsert_one_cases)
  show ?case
  proof (cases ?o)
    case (Inl msg)
    have "upsert_loop up se rq env (kv # rest) (s, e, log) =
            upsert_loop up se rq env rest (s, e @ [msg], ?log)"
      using one Inl by simp
    then show ?thesis
      unfolding Cons.IH
      by (simp add: upt_Suc_shift filter_map comp_def nth_outcome_0 nth_outcome_Suc Inl
               del: upt_Suc)
  next
    case (Inr k)
    then have k: "k = fst kv" by (rule upsert_one_key)
    have "upsert_loop up se rq env (kv # rest) (s, e, log) =
            upsert_loop up se rq env rest (s @ [k], e, ?log)"
      using one Inr by simp
    then show ?thesis
      unfolding Cons.IH
      by (simp add: upt_Suc_shift filter_map comp_def nth_outcome_0 nth_outcome_Suc Inr k
               del: upt_Suc)
  qed
qed

lemma set_each_variable_char:
  "set_each_variable up se rq env log =
     (\<lparr>success =
          (filter (\<lambda>i. isl (nth_outcome up se rq env (variables rq) log i))
             [0..<length (variables rq)] = []),
       variables_set =
          map (\<lambda>i. fst (variables rq ! i))
            (filter (\<lambda>i. \<not> isl (nth_outcome up se rq env (variables rq) log i))
               [0..<length (variables rq)]),
       errors =
          map (\<lambda>i. projl (nth_outcome up se rq env (variables rq) log i))
            (filter (\<lambda>i. isl (nth_outcome up se rq env (variables rq) log i))
               [0..<length (variables rq)])\<rparr>,
      log @ map (upsert_payload rq env) (variables rq))"
  unfolding set_each_variable_def upsert_loop_char by simp

lemma set_each_variable_log:
  "snd (set_each_variable up se rq env log) = log @ map (upsert_payload rq env) (variables rq)"
  unfolding set_each_variable_char by simp

lemma find_production_edges:
  "find_production (map edge_of envs) eid =
     Inr (case List.find (\<lambda>e. map lower_char (snd e) = ''production'') envs of
            Some e \<Rightarrow> fst e | None \<Rightarrow> eid)"
  by (induction envs) (simp_all add: edge_of_def bind_exc_def)

lemma resolve_environment_unfold:
  "resolve_environment (environments_result envs) eid =
     bind_exc (find_production (map edge_of envs) eid) (\<lambda>env_id'.
       if \<not> truthy env_id' \<and> envs \<noteq> []
       then bind_exc (py_getitem0 (JArr (map edge_of envs))) (\<lambda>env0.
            bind_exc (py_getitem env0 ''node'') (\<lambda>node. py_getitem node ''id''))
       else Inr env_id')"
  by (simp add: resolve_environment_def environments_result_def bind_exc_def split: sum.splits)

lemma first_edge_id:
  "bind_exc (py_getitem0 (JArr (map edge_of (e0 # rest)))) (\<lambda>env0.
     bind_exc (py_getitem env0 ''node'') (\<lambda>node. py_getitem node ''id'')) = Inr (fst e0)"
  by (simp add: edge_of_def bind_exc_def)

lemma resolve_environment_edges:
  "resolve_environment (environments_result envs) eid =
     Inr (case List.find (\<lambda>e. map lower_char (snd e) = ''production'') envs of
            Some e \<Rightarrow> if truthy (fst e) then fst e else fst (hd envs)
          | None \<Rightarrow> (case envs of [] \<Rightarrow> eid | e # _ \<Rightarrow> if truthy eid then eid else fst e))"
proof (cases envs)
  case Nil
  then show ?thesis
    unfolding resolve_environment_unfold find_production_edges by (simp add: bind_exc_def)
next
  case (Cons e0 rest)
  show ?thesis
    unfolding resolve_environment_unfold find_production_edges
    unfolding Cons first_edge_id
    by (simp add: bind_exc_def split: option.splits)
qed

text \<open>The handler when the look-up is made, in terms of what the look-up gives.\<close>

lemma set_variables_lookup:
  assumes "\<not> truthy (opt_json (VariableSetRequest.environment_id rq))"
  shows "set_variables up se rq log =
     (case bind_exc (fst (execute_query up project_query
                      (JObj [(''id'', JStr (VariableSetRequest.project_id rq))]) log))
             (\<lambda>result. resolve_environment result
                          (opt_json (VariableSetRequest.environment_id rq))) of
        Inl e \<Rightarrow> (\<lparr>success = False, variables_set = [],
                   errors = [''Failed to get environment ID: '' @ se e]\<rparr>,
                  log @ [lookup_payload rq])
      | Inr env \<Rightarrow> set_each_variable up se rq env (log @ [lookup_payload rq]))"
proof -
  obtain r l where eq: "execute_query up project_query
          (JObj [(''id'', JStr (VariableSetRequest.project_id rq))]) log = (r, l)"
    by (rule prod.exhaust)
  have l: "l = log @ [lookup_payload rq]"
    using execute_query_log [of up project_query
        "JObj [(''id'', JStr (VariableSetRequest.project_id rq))]" log]
    unfolding eq lookup_payload_def by simp
  show ?thesis using assms by (simp add: set_variables_def Let_def eq l)
qed

lemma set_variables_supplied:
  assumes "truthy (opt_json (VariableSetRequest.environment_id rq))"
  shows "set_variables up se rq log =
           set_each_variable up se rq (opt_json (VariableSetRequest.environment_id rq)) log"
  using assms by (simp add: set_variables_def Let_def)

lemma set_variables_lookup_prefix:
  assumes "\<not> truthy (opt_json (VariableSetRequest.environment_id rq))"
  shows "prefix (log @ [lookup_payload rq]) (snd (set_variables up se rq log))"
  unfolding set_variables_lookup [OF assms]
  by (simp add: set_each_variable_log split: sum.splits)

lemma execute_query_answers: "fst (execute_query (answers d) q v log) = Inr d"
  unfolding answers_def by (rule execute_query_reply_data)

text \<open>
  The selection on a well-formed answer to the look-up, when no environment id is supplied.
  The variables are set under the id of the first environment whose lower-cased name is
  \<^verbatim>\<open>production\<close> when that id is truthy, under the id of the first environment of the list
  when no name matches, and under \<^verbatim>\<open>None\<close> when the list is empty; one upsert is posted for
  every variable, carrying that id (\<^verbatim>\<open>null\<close> for the empty list). When the production
  environment's id is falsy the first environment's id is taken.
\<close>

lemma set_variables_selects_environment:
  assumes "VariableSetRequest.environment_id rq = None"
    and "fst (execute_query up project_query
               (JObj [(''id'', JStr (VariableSetRequest.project_id rq))]) log) =
         Inr (environments_result envs)"
  shows "set_variables up se rq log =
           set_each_variable up se rq
             (case List.find (\<lambda>e. map lower_char (snd e) = ''production'') envs of
                Some e \<Rightarrow> if truthy (fst e) then fst e else fst (hd envs)
              | None \<Rightarrow> (case envs of [] \<Rightarrow> JNull | e # _ \<Rightarrow> fst e))
             (log @ [lookup_payload rq]) \<and>
         snd (set_variables up se rq log) =
           log @ lookup_payload rq #
             map (upsert_payload rq
                   (case List.find (\<lambda>e. map lower_char (snd e) = ''production'') envs of
                      Some e \<Rightarrow> if truthy (fst e) then fst e else fst (hd envs)
                    | None \<Rightarrow> (case envs of [] \<Rightarrow> JNull | e # _ \<Rightarrow> fst e)))
                 (variables rq)"
proof -
  have nt: "\<not> truthy (opt_json (VariableSetRequest.environment_id rq))"
    using assms(1) by simp
  have r: "resolve_environment (environments_result envs) JNull =
             Inr (case List.find (\<lambda>e. map lower_char (snd e) = ''production'') envs of
                    Some e \<Rightarrow> if truthy (fst e) then fst e else fst (hd envs)
                  | None \<Rightarrow> (case envs of [] \<Rightarrow> JNull | e # _ \<Rightarrow> fst e))"
    unfolding resolve_environment_edges by (simp split: option.splits list.splits)
  have a: "set_variables up se rq log =
           set_each_variable up se rq
             (case List.find (\<lambda>e. map lower_char (snd e) = ''production'') envs of
                Some e \<Rightarrow> if truthy (fst e) then fst e else fst (hd envs)
              | None \<Rightarrow> (case envs of [] \<Rightarrow> JNull | e # _ \<Rightarrow> fst e))
             (log @ [lookup_payload rq])"
    unfolding set_variables_lookup [OF nt] assms(2)
    using r assms(1) by (simp add: bind_exc_def)
  show ?thesis
    unfolding a set_each_variable_log by simp
qed

text \<open>The example of the specification: \<^verbatim>\<open>Production\<close> is second in the list and is selected.\<close>

lemma set_variables_spec_example:
  "snd (set_variables (answers (environments_result staging_then_production)) fixed_str
          one_variable []) =
     [lookup_payload one_variable, upsert_payload one_variable (JStr ''b'') (''K'', ''V'')]"
proof -
  have 1: "VariableSetRequest.environment_id one_variable = None"
    by (simp add: one_variable_def)
  have 2: "fst (execute_query (answers (environments_result staging_then_production))
             project_query (JObj [(''id'', JStr (VariableSetRequest.project_id one_variable))]) [])
           = Inr (environments_result staging_then_production)"
    by (rule execute_query_answers)
  have v: "variables one_variable = [(''K'', ''V'')]" by (simp add: one_variable_def)
  have f: "List.find (\<lambda>e. map lower_char (snd e) = ''production'') staging_then_production
             = Some (JStr ''b'', ''Production'')"
    by (simp add: staging_then_production_def lower_char_def)
  from set_variables_selects_environment
         [of one_variable "answers (environments_result staging_then_production)" "[]"
             staging_then_production fixed_str, OF 1 2, THEN conjunct2]
  show ?thesis unfolding f v by simp
qed

text \<open>
  Claim C5 on the code. The second environment is named \<^verbatim>\<open>production\<close> and its id is the
  empty string. The loop finds it, and the test that follows, commented
  \<^verbatim>\<open>Use first environment if production not found\<close>, is on the truthiness of the id: the
  upsert is posted with the id of the first environment of the list, not with the id of
  the production one.
\<close>

theorem set_variables_production_empty_id:
  "List.find (\<lambda>e. map lower_char (snd e) = ''production'') production_without_id
     = Some (JStr [], ''production'') \<and>
   snd (set_variables (answers (environments_result production_without_id)) fixed_str
          one_variable []) =
     [lookup_payload one_variable, upsert_payload one_variable (JStr ''a'') (''K'', ''V'')] \<and>
   upsert_payload one_variable (JStr ''a'') (''K'', ''V'') \<noteq>
     upsert_payload one_variable (JStr []) (''K'', ''V'')"
proof -
  have nt: "\<not> truthy (opt_json (VariableSetRequest.environment_id one_variable))"
    by (simp add: one_variable_def)
  have f: "List.find (\<lambda>e. map lower_char (snd e) = ''production'') production_without_id
             = Some (JStr [], ''production'')"
    by (simp add: production_without_id_def lower_char_def)
  have r: "resolve_environment (environments_result production_without_id)
             (opt_json (VariableSetRequest.environment_id one_variable)) = Inr (JStr ''a'')"
    unfolding resolve_environment_edges f by (simp add: production_without_id_def)
  have s: "snd (set_variables (answers (environments_result production_without_id)) fixed_str
          one_variable []) =
     [lookup_payload one_variable, upsert_payload one_variable (JStr ''a'') (''K'', ''V'')]"
    unfolding set_variables_lookup [OF nt] execute_query_answers
    by (simp add: bind_exc_def r set_each_variable_log) (simp add: one_variable_def)
  have d: "upsert_payload one_variable (JStr ''a'') (''K'', ''V'') \<noteq>
     upsert_payload one_variable (JStr []) (''K'', ''V'')"
    by (simp add: upsert_payload_def query_payload_def upsert_variables_def)
  from f s d show ?thesis by simp
qed

lemma execute_query_transport_fault:
  "fst (execute_query (always (RequestFault msg)) q v log) =
     Inl (HTTPException 500 (JStr (''Railway API error: '' @ msg)))"
  by (simp add: execute_query_def http_exception_def always_def)

lemma upsert_one_succeeds_iff:
  "\<not> isl (fst (upsert_one up se rq env kv l)) \<longleftrightarrow>
     (\<exists>kvs. fst (execute_query up variableUpsert_mutation
                   (upsert_variables rq env (fst kv) (snd kv)) l) = Inr (JObj kvs) \<and>
            map_of kvs ''variableUpsert'' = Some (JBool True))"
proof -
  obtain r l' where eq: "execute_query up variableUpsert_mutation
                   (upsert_variables rq env (fst kv) (snd kv)) l = (r, l')"
    by (rule prod.exhaust)
  show ?thesis
  proof (cases r)
    case (Inl e)
    then show ?thesis by (simp add: upsert_one_def eq bind_exc_def)
  next
    case (Inr result)
    show ?thesis
    proof (cases result)
      case (JObj kvs)
      then show ?thesis
        using Inr by (cases "map_of kvs ''variableUpsert''")
                     (simp_all add: upsert_one_def eq bind_exc_def)
    qed (simp_all add: upsert_one_def eq bind_exc_def Inr)
  qed
qed

lemma upsert_one_names_variable:
  "(case fst (upsert_one up se rq env kv l) of
      Inl msg \<Rightarrow> prefix (''Failed to set '' @ fst kv @ '': '') msg
    | Inr k \<Rightarrow> k = fst kv)"
  by (simp add: upsert_one_def bind_exc_def split: prod.splits sum.splits)

text \<open>
  Claim C6. When no truthy environment id is supplied and the look-up call fails in the
  adapter (with any exception, among them the 500-class one of a transport fault and the
  400-class one of GraphQL errors), the handler returns at once: \<^verbatim>\<open>success\<close> is false,
  \<^verbatim>\<open>variables_set\<close> is empty, there is exactly one error message, and the look-up is the only
  payload posted, so no upsert is attempted.
\<close>

theorem set_variables_resolution_fails:
  assumes "\<not> truthy (opt_json (VariableSetRequest.environment_id rq))"
    and "fst (execute_query up project_query
               (JObj [(''id'', JStr (VariableSetRequest.project_id rq))]) log) = Inl e"
  shows "set_variables up se rq log =
           (\<lparr>success = False, variables_set = [],
             errors = [''Failed to get environment ID: '' @ se e]\<rparr>,
            log @ [lookup_payload rq])"
  unfolding set_variables_lookup [OF assms(1)] assms(2) by (simp add: bind_exc_def)

theorem set_variables_resolution_fails_witness:
  "set_variables (always (RequestFault ''down'')) fixed_str one_variable [] =
     (\<lparr>success = False, variables_set = [],
       errors = [''Failed to get environment ID: e'']\<rparr>,
      [lookup_payload one_variable])"
proof -
  have 1: "\<not> truthy (opt_json (VariableSetRequest.environment_id one_variable))"
    by (simp add: one_variable_def)
  have 2: "fst (execute_query (always (RequestFault ''down'')) project_query
               (JObj [(''id'', JStr (VariableSetRequest.project_id one_variable))]) []) =
           Inl (HTTPException 500 (JStr (''Railway API error: '' @ ''down'')))"
    by (rule execute_query_transport_fault)
  from set_variables_resolution_fails
         [of one_variable "always (RequestFault ''down'')" "[]" _ fixed_str, OF 1 2]
  show ?thesis by (simp add: fixed_str_def)
qed

text \<open>
  Claim C7. The loop over the variables posts one upsert for every variable, in order,
  whatever the earlier passes gave. \<^verbatim>\<open>variables_set\<close> lists the names of the passes that
  succeeded, in processing order, and \<^verbatim>\<open>errors\<close> the messages of the passes that failed, so
  that every variable has exactly one entry in one of the two; \<^verbatim>\<open>success\<close> holds iff
  \<^verbatim>\<open>errors\<close> is empty. A pass succeeds iff the adapter returns a mapping that binds
  \<^verbatim>\<open>variableUpsert\<close> to \<^verbatim>\<open>true\<close>; the message of a failed pass starts with the name of its
  variable.
\<close>

theorem set_each_variable_fail_open:
  "snd (set_each_variable up se rq env log) = log @ map (upsert_payload rq env) (variables rq) \<and>
   variables_set (fst (set_each_variable up se rq env log)) =
     map (\<lambda>i. fst (variables rq ! i))
       (filter (\<lambda>i. \<not> isl (nth_outcome up se rq env (variables rq) log i))
          [0..<length (variables rq)]) \<and>
   errors (fst (set_each_variable up se rq env log)) =
     map (\<lambda>i. projl (nth_outcome up se rq env (variables rq) log i))
       (filter (\<lambda>i. isl (nth_outcome up se rq env (variables rq) log i))
          [0..<length (variables rq)]) \<and>
   success (fst (set_each_variable up se rq env log)) =
     (errors (fst (set_each_variable up se rq env log)) = []) \<and>
   length (variables_set (fst (set_each_variable up se rq env log))) +
     length (errors (fst (set_each_variable up se rq env log))) = length (variables rq) \<and>
   (\<not> isl (fst (upsert_one up se rq env kv l)) \<longleftrightarrow>
     (\<exists>kvs. fst (execute_query up variableUpsert_mutation
                   (upsert_variables rq env (fst kv) (snd kv)) l) = Inr (JObj kvs) \<and>
            map_of kvs ''variableUpsert'' = Some (JBool True))) \<and>
   (case fst (upsert_one up se rq env kv l) of
      Inl msg \<Rightarrow> prefix (''Failed to set '' @ fst kv @ '': '') msg
    | Inr k \<Rightarrow> k = fst kv)"
proof -
  have len: "length (filter (\<lambda>i. \<not> isl (nth_outcome up se rq env (variables rq) log i))
                 [0..<length (variables rq)]) +
             length (filter (\<lambda>i. isl (nth_outcome up se rq env (variables rq) log i))
                 [0..<length (variables rq)]) = length (variables rq)"
    using sum_length_filter_compl
            [of "\<lambda>i. isl (nth_outcome up se rq env (variables rq) log i)"
                "[0..<length (variables rq)]"]
    by simp
  show ?thesis
    unfolding set_each_variable_char
    using len upsert_one_succeeds_iff upsert_one_names_variable
    by simp
qed

lemma upt_3: "[0..<3] = [0, 1, 2]"
  by (simp add: upt_rec)

theorem set_each_variable_fail_open_witness:
  "snd (set_each_variable second_fails fixed_str three_variables (JStr ''e1'') []) =
     map (upsert_payload three_variables (JStr ''e1'')) [(''A'', ''1''), (''B'', ''2''), (''C'', ''3'')] \<and>
   variables_set (fst (set_each_variable second_fails fixed_str three_variables (JStr ''e1'') []))
     = [''A'', ''C''] \<and>
   errors (fst (set_each_variable second_fails fixed_str three_variables (JStr ''e1'') []))
     = [''Failed to set B: e''] \<and>
   success (fst (set_each_variable second_fails fixed_str three_variables (JStr ''e1'') []))
     = False"
proof -
  have v: "variables three_variables = [(''A'', ''1''), (''B'', ''2''), (''C'', ''3'')]"
    by (simp add: three_variables_def)
  have o0: "nth_outcome second_fails fixed_str three_variables (JStr ''e1'')
              [(''A'', ''1''), (''B'', ''2''), (''C'', ''3'')] [] 0 = Inr ''A''"
    by (simp add: nth_outcome_def upsert_one_def execute_query_def http_exception_def second_fails_def reply_def
          bind_exc_def)
  have o1: "nth_outcome second_fails fixed_str three_variables (JStr ''e1'')
              [(''A'', ''1''), (''B'', ''2''), (''C'', ''3'')] [] (Suc 0) = Inl ''Failed to set B: e''"
    by (simp add: nth_outcome_def upsert_one_def execute_query_def http_exception_def second_fails_def reply_def
          bind_exc_def fixed_str_def)
  have o2: "nth_outcome second_fails fixed_str three_variables (JStr ''e1'')
              [(''A'', ''1''), (''B'', ''2''), (''C'', ''3'')] [] (Suc (Suc 0)) = Inr ''C''"
    by (simp add: nth_outcome_def upsert_one_def execute_query_def http_exception_def second_fails_def reply_def
          bind_exc_def)
  from set_each_variable_fail_open
         [of second_fails fixed_str three_variables "JStr ''e1''" "[]"]
  show ?thesis
    unfolding v by (simp add: upt_3 o0 o1 o2)
qed

lemma set_each_variable_empty:
  "variables rq = [] \<Longrightarrow>
   set_each_variable up se rq env log =
     (\<lparr>success = True, variables_set = [], errors = []\<rparr>, log)"
  by (simp add: set_each_variable_def)

text \<open>
  Claim C9, as the code has it. With an empty variable mapping the handler posts no upsert
  and returns \<^verbatim>\<open>success\<close> true with empty \<^verbatim>\<open>variables_set\<close> and \<^verbatim>\<open>errors\<close>, whenever it gets
  past the environment resolution: a truthy environment id is supplied, or the look-up and
  the selection give an environment id. The look-up, when made, is the only payload posted.
\<close>

theorem set_variables_empty_mapping:
  assumes "variables rq = []"
    and "truthy (opt_json (VariableSetRequest.environment_id rq)) \<or>
         (\<exists>env. bind_exc (fst (execute_query up project_query
                      (JObj [(''id'', JStr (VariableSetRequest.project_id rq))]) log))
             (\<lambda>result. resolve_environment result
                          (opt_json (VariableSetRequest.environment_id rq))) = Inr env)"
  shows "set_variables up se rq log =
           (\<lparr>success = True, variables_set = [], errors = []\<rparr>,
            if truthy (opt_json (VariableSetRequest.environment_id rq)) then log
            else log @ [lookup_payload rq])"
proof (cases "truthy (opt_json (VariableSetRequest.environment_id rq))")
  case True
  show ?thesis
    unfolding set_variables_supplied [OF True] set_each_variable_empty [OF assms(1)]
    using True by simp
next
  case False
  with assms(2) obtain env where
    "bind_exc (fst (execute_query up project_query
                      (JObj [(''id'', JStr (VariableSetRequest.project_id rq))]) log))
             (\<lambda>result. resolve_environment result
                          (opt_json (VariableSetRequest.environment_id rq))) = Inr env"
    by auto
  then show ?thesis
    unfolding set_variables_lookup [OF False]
    using False by (simp add: set_each_variable_empty [OF assms(1)])
qed

theorem set_variables_empty_mapping_witness:
  "set_variables (answers (environments_result staging_then_production)) fixed_str
      no_variables [] =
     (\<lparr>success = True, variables_set = [], errors = []\<rparr>, [lookup_payload no_variables])"
proof -
  have 1: "variables no_variables = []" by (simp add: no_variables_def)
  have nt: "\<not> truthy (opt_json (VariableSetRequest.environment_id no_variables))"
    by (simp add: no_variables_def)
  have "\<exists>env. bind_exc (fst (execute_query (answers (environments_result staging_then_production))
                      project_query
                      (JObj [(''id'', JStr (VariableSetRequest.project_id no_variables))]) []))
             (\<lambda>result. resolve_environment result
                          (opt_json (VariableSetRequest.environment_id no_variables))) = Inr env"
    unfolding execute_query_answers by (simp add: bind_exc_def resolve_environment_edges)
  then have 2: "truthy (opt_json (VariableSetRequest.environment_id no_variables)) \<or>
         (\<exists>env. bind_exc (fst (execute_query (answers (environments_result staging_then_production))
                      project_query
                      (JObj [(''id'', JStr (VariableSetRequest.project_id no_variables))]) []))
             (\<lambda>result. resolve_environment result
                          (opt_json (VariableSetRequest.environment_id no_variables))) = Inr env)"
    by (rule disjI2)
  from set_variables_empty_mapping
         [of no_variables "answers (environments_result staging_then_production)" "[]" fixed_str,
          OF 1 2] nt
  show ?thesis by simp
qed

text \<open>
  Claim C9 as stated fails: with an empty variable mapping, no environment id and a look-up
  that meets a transport fault, the handler returns \<^verbatim>\<open>success\<close> false and one error message.
\<close>

theorem set_variables_empty_mapping_counterexample:
  "variables no_variables = [] \<and>
   set_variables (always (RequestFault ''down'')) fixed_str no_variables [] =
     (\<lparr>success = False, variables_set = [],
       errors = [''Failed to get environment ID: e'']\<rparr>,
      [lookup_payload no_variables])"
proof -
  have nt: "\<not> truthy (opt_json (VariableSetRequest.environment_id no_variables))"
    by (simp add: no_variables_def)
  show ?thesis
    unfolding set_variables_lookup [OF nt] execute_query_transport_fault
    by (simp add: bind_exc_def fixed_str_def) (simp add: no_variables_def)
qed

lemma find_production_start:
  "find_production items a = find_production items b \<or>
   (find_production items a = Inr a \<and> find_production items b = Inr b)"
  by (induction items) (simp_all split: sum.splits)

lemma resolve_environment_start:
  "resolve_environment result (JStr []) = resolve_environment result JNull \<or>
   (resolve_environment result (JStr []) = Inr (JStr []) \<and>
    resolve_environment result JNull = Inr JNull)"
proof -
  have step: "\<And>environments items.
    bind_exc (find_production items (JStr [])) (\<lambda>env_id'.
       if \<not> truthy env_id' \<and> truthy environments
       then bind_exc (py_getitem0 environments) (\<lambda>env0.
            bind_exc (py_getitem env0 ''node'') (\<lambda>node. py_getitem node ''id''))
       else Inr env_id') =
    bind_exc (find_production items JNull) (\<lambda>env_id'.
       if \<not> truthy env_id' \<and> truthy environments
       then bind_exc (py_getitem0 environments) (\<lambda>env0.
            bind_exc (py_getitem env0 ''node'') (\<lambda>node. py_getitem node ''id''))
       else Inr env_id') \<or>
    (bind_exc (find_production items (JStr [])) (\<lambda>env_id'.
       if \<not> truthy env_id' \<and> truthy environments
       then bind_exc (py_getitem0 environments) (\<lambda>env0.
            bind_exc (py_getitem env0 ''node'') (\<lambda>node. py_getitem node ''id''))
       else Inr env_id') = Inr (JStr []) \<and>
     bind_exc (find_production items JNull) (\<lambda>env_id'.
       if \<not> truthy env_id' \<and> truthy environments
       then bind_exc (py_getitem0 environments) (\<lambda>env0.
            bind_exc (py_getitem env0 ''node'') (\<lambda>node. py_getitem node ''id''))
       else Inr env_id') = Inr JNull)"
  proof -
    fix environments items
    from find_production_start [of items "JStr []" JNull]
    show "?thesis environments items"
    proof
      assume "find_production items (JStr []) = find_production items JNull"
      then show ?thesis by simp
    next
      assume "find_production items (JStr []) = Inr (JStr []) \<and>
              find_production items JNull = Inr JNull"
      then show ?thesis by (simp add: bind_exc_def)
    qed
  qed
  show ?thesis
  proof (cases "py_getitem result ''project''")
    case (Inl e)
    then show ?thesis by (simp add: resolve_environment_def bind_exc_def)
  next
    case p: (Inr project)
    show ?thesis
    proof (cases "py_getitem project ''environments''")
      case (Inl e)
      then show ?thesis using p by (simp add: resolve_environment_def bind_exc_def)
    next
      case es: (Inr envs)
      show ?thesis
      proof (cases "py_getitem envs ''edges''")
        case (Inl e)
        then show ?thesis using p es by (simp add: resolve_environment_def bind_exc_def)
      next
        case ed: (Inr environments)
        show ?thesis
        proof (cases "py_iter environments")
          case (Inl e)
          then show ?thesis using p es ed by (simp add: resolve_environment_def bind_exc_def)
        next
          case (Inr items)
          have r: "\<And>eid. resolve_environment result eid =
            bind_exc (find_production items eid) (\<lambda>env_id'.
              if \<not> truthy env_id' \<and> truthy environments
              then bind_exc (py_getitem0 environments) (\<lambda>env0.
                   bind_exc (py_getitem env0 ''node'') (\<lambda>node. py_getitem node ''id''))
              else Inr env_id')"
            using p es ed Inr by (simp add: resolve_environment_def bind_exc_def)
          show ?thesis unfolding r by (rule step)
        qed
      qed
    qed
  qed
qed

section \<open>Properties of \<^verbatim>\<open>create_service\<close>\<close>

lemma service_input_explicit:
  "service_input rq =
     [(''projectId'', JStr (ServiceCreateRequest.project_id rq)),
      (''source'', JObj [(''repo'', JStr (repo rq))])] @
     (case service_name rq of None \<Rightarrow> [] | Some s \<Rightarrow> if s = [] then [] else [(''name'', JStr s)]) @
     (case root_directory rq of
        None \<Rightarrow> [] | Some s \<Rightarrow> if s = [] then [] else [(''rootDirectory'', JStr s)])"
  by (simp add: service_input_def Let_def split: option.splits)

lemma create_service_log:
  "snd (create_service up se rq log) =
     log @ [query_payload serviceCreate_mutation (JObj [(''input'', JObj (service_input rq))])]"
proof -
  obtain r l where eq: "execute_query up serviceCreate_mutation
             (JObj [(''input'', JObj (service_input rq))]) log = (r, l)"
    by (rule prod.exhaust)
  have "l = log @ [query_payload serviceCreate_mutation
                     (JObj [(''input'', JObj (service_input rq))])]"
    using execute_query_log [of up serviceCreate_mutation
        "JObj [(''input'', JObj (service_input rq))]" log]
    unfolding eq by simp
  then show ?thesis by (simp add: create_service_def eq)
qed

text \<open>
  Claim C4, as the code has it. The handler posts one payload, whose \<^verbatim>\<open>variables.input\<close> is
  the input object. It binds \<^verbatim>\<open>projectId\<close> and \<^verbatim>\<open>source.repo\<close>; it has \<^verbatim>\<open>name\<close> exactly when
  a non-empty service name is supplied and \<^verbatim>\<open>rootDirectory\<close> exactly when a non-empty root
  directory is supplied, bound to the supplied strings; and it binds nothing to \<^verbatim>\<open>null\<close>.
\<close>

theorem create_service_payload:
  "snd (create_service up se rq log) =
     log @ [JObj [(''query'', JStr serviceCreate_mutation),
                  (''variables'', JObj [(''input'', JObj (service_input rq))])]] \<and>
   map_of (service_input rq) ''projectId'' = Some (JStr (ServiceCreateRequest.project_id rq)) \<and>
   map_of (service_input rq) ''source'' = Some (JObj [(''repo'', JStr (repo rq))]) \<and>
   map_of (service_input rq) ''name'' =
     (case service_name rq of None \<Rightarrow> None | Some s \<Rightarrow> if s = [] then None else Some (JStr s)) \<and>
   (''name'' \<in> set (map fst (service_input rq))) =
     (case service_name rq of None \<Rightarrow> False | Some s \<Rightarrow> s \<noteq> []) \<and>
   map_of (service_input rq) ''rootDirectory'' =
     (case root_directory rq of
        None \<Rightarrow> None | Some s \<Rightarrow> if s = [] then None else Some (JStr s)) \<and>
   (''rootDirectory'' \<in> set (map fst (service_input rq))) =
     (case root_directory rq of None \<Rightarrow> False | Some s \<Rightarrow> s \<noteq> []) \<and>
   JNull \<notin> set (map snd (service_input rq))"
proof -
  have a: "snd (create_service up se rq log) =
     log @ [JObj [(''query'', JStr serviceCreate_mutation),
                  (''variables'', JObj [(''input'', JObj (service_input rq))])]]"
    unfolding create_service_log by (simp add: query_payload_def)
  have b: "map_of (service_input rq) ''projectId'' =
             Some (JStr (ServiceCreateRequest.project_id rq))"
    unfolding service_input_explicit by simp
  have c: "map_of (service_input rq) ''source'' = Some (JObj [(''repo'', JStr (repo rq))])"
    unfolding service_input_explicit by simp
  have d: "map_of (service_input rq) ''name'' =
     (case service_name rq of None \<Rightarrow> None | Some s \<Rightarrow> if s = [] then None else Some (JStr s))"
    unfolding service_input_explicit
    by (cases "service_name rq"; cases "root_directory rq"; simp)
  have e: "(''name'' \<in> set (map fst (service_input rq))) =
     (case service_name rq of None \<Rightarrow> False | Some s \<Rightarrow> s \<noteq> [])"
    unfolding service_input_explicit
    by (cases "service_name rq"; cases "root_directory rq"; simp)
  have f: "map_of (service_input rq) ''rootDirectory'' =
     (case root_directory rq of
        None \<Rightarrow> None | Some s \<Rightarrow> if s = [] then None else Some (JStr s))"
    unfolding service_input_explicit
    by (cases "service_name rq"; cases "root_directory rq"; simp)
  have g: "(''rootDirectory'' \<in> set (map fst (service_input rq))) =
     (case root_directory rq of None \<Rightarrow> False | Some s \<Rightarrow> s \<noteq> [])"
    unfolding service_input_explicit
    by (cases "service_name rq"; cases "root_directory rq"; simp)
  have h: "JNull \<notin> set (map snd (service_input rq))"
    unfolding service_input_explicit
    by (cases "service_name rq"; cases "root_directory rq"; simp)
  from a b c d e f g h show ?thesis by blast
qed

theorem create_service_payload_witness:
  "map_of (service_input named_request) ''name'' = Some (JStr ''api'') \<and>
   map_of (service_input named_request) ''rootDirectory'' = None"
  using create_service_payload [where rq = named_request]
  by (simp add: named_request_def)

text \<open>
  Claim C4 as stated fails: a request that supplies the empty string as its service name
  gets an input object without \<^verbatim>\<open>name\<close>.
\<close>

theorem create_service_empty_name_counterexample:
  "service_name empty_name_request = Some [] \<and>
   ''name'' \<notin> set (map fst (service_input empty_name_request))"
  by (simp add: empty_name_request_def service_input_def)

text \<open>
  Claim C10. A service name or a root directory given as the empty string makes
  \<^verbatim>\<open>create_service\<close> behave as for an absent field: same payload, same result. An
  environment id given as the empty string makes \<^verbatim>\<open>set_variables\<close> post the environment
  look-up first, as an absent one does; the selection that follows gives the same
  environment id in both cases, except when it selects nothing and the id stays as it was
  (the empty string, or \<^verbatim>\<open>None\<close>).
\<close>

theorem empty_string_fields_as_absent:
  "create_service up se (rq\<lparr>service_name := Some []\<rparr>) log =
     create_service up se (rq\<lparr>service_name := None\<rparr>) log \<and>
   create_service up se (rq\<lparr>root_directory := Some []\<rparr>) log =
     create_service up se (rq\<lparr>root_directory := None\<rparr>) log \<and>
   prefix (log @ [lookup_payload vr])
     (snd (set_variables up se (vr\<lparr>VariableSetRequest.environment_id := Some []\<rparr>) log)) \<and>
   prefix (log @ [lookup_payload vr])
     (snd (set_variables up se (vr\<lparr>VariableSetRequest.environment_id := None\<rparr>) log)) \<and>
   (resolve_environment result (JStr []) = resolve_environment result JNull \<or>
    (resolve_environment result (JStr []) = Inr (JStr []) \<and>
     resolve_environment result JNull = Inr JNull))"
proof -
  have sa: "service_input (rq\<lparr>service_name := Some []\<rparr>) =
            service_input (rq\<lparr>service_name := None\<rparr>)"
    by (simp add: service_input_explicit)
  have sb: "service_input (rq\<lparr>root_directory := Some []\<rparr>) =
            service_input (rq\<lparr>root_directory := None\<rparr>)"
    by (simp add: service_input_explicit)
  have a: "create_service up se (rq\<lparr>service_name := Some []\<rparr>) log =
     create_service up se (rq\<lparr>service_name := None\<rparr>) log"
    unfolding create_service_def sa ..
  have b: "create_service up se (rq\<lparr>root_directory := Some []\<rparr>) log =
     create_service up se (rq\<lparr>root_directory := None\<rparr>) log"
    unfolding create_service_def sb ..
  have c: "prefix (log @ [lookup_payload vr])
     (snd (set_variables up se (vr\<lparr>VariableSetRequest.environment_id := Some []\<rparr>) log))"
    using set_variables_lookup_prefix
            [of "vr\<lparr>VariableSetRequest.environment_id := Some []\<rparr>" log up se]
    by (simp add: lookup_payload_def)
  have d: "prefix (log @ [lookup_payload vr])
     (snd (set_variables up se (vr\<lparr>VariableSetRequest.environment_id := None\<rparr>) log))"
    using set_variables_lookup_prefix
            [of "vr\<lparr>VariableSetRequest.environment_id := None\<rparr>" log up se]
    by (simp add: lookup_payload_def)
  from a b c d resolve_environment_start [of result] show ?thesis by blast
qed

section \<open>Properties of \<^verbatim>\<open>generate_secret_key\<close>\<close>

lemma length_hexlify: "length (hexlify bs) = 2 * length bs"
  by (induction bs) (simp_all add: hexlify_def)

lemma hexdigit_nth: "k < 16 \<Longrightarrow> hexdigits ! k \<in> set hexdigits"
  by (rule nth_mem) (simp add: hexdigits_def)

lemma byte_div_16: "unat (b :: 8 word) div 16 < 16"
proof -
  have "unat b < 2 ^ 8" using unsigned_less [of b] by simp
  then show ?thesis by simp
qed

lemma set_hexlify: "set (hexlify bs) \<subseteq> set hexdigits"
  using byte_div_16 by (auto simp: hexlify_def intro!: hexdigit_nth)

lemma hexdigits_inj:
  assumes "i < 16" and "j < 16" and "hexdigits ! i = hexdigits ! j"
  shows "i = j"
proof -
  have d: "distinct hexdigits" by (simp add: hexdigits_def)
  have l: "length hexdigits = 16" by (simp add: hexdigits_def)
  from assms d l show ?thesis by (simp add: nth_eq_iff_index_eq)
qed

lemma byte_digits_inj:
  fixes a b :: "8 word"
  assumes "hexdigits ! (unat a div 16) = hexdigits ! (unat b div 16)"
    and "hexdigits ! (unat a mod 16) = hexdigits ! (unat b mod 16)"
  shows "a = b"
proof -
  have 1: "unat a div 16 = unat b div 16"
    using assms(1) by (intro hexdigits_inj byte_div_16)
  have 2: "unat a mod 16 = unat b mod 16"
    using assms(2) by (intro hexdigits_inj) simp_all
  have "unat a = unat b"
    using 1 2 by (metis div_mult_mod_eq)
  then show ?thesis by (simp add: word_unat_eq_iff)
qed

lemma hexlify_Cons:
  "hexlify (b # bs) = hexdigits ! (unat b div 16) # hexdigits ! (unat b mod 16) # hexlify bs"
  by (simp add: hexlify_def)

lemma hexlify_inj: "hexlify as = hexlify bs \<Longrightarrow> as = bs"
proof (induction as arbitrary: bs)
  case Nil
  then have "length (hexlify bs) = 0" by (simp add: hexlify_def)
  then show ?case by (simp add: length_hexlify)
next
  case (Cons a as)
  from Cons.prems have "length (hexlify (a # as)) = length (hexlify bs)" by simp
  then have "length bs = Suc (length as)" unfolding length_hexlify by simp
  then obtain b bs' where bs: "bs = b # bs'" by (cases bs) simp_all
  from Cons.prems have e: "hexdigits ! (unat a div 16) = hexdigits ! (unat b div 16)"
    "hexdigits ! (unat a mod 16) = hexdigits ! (unat b mod 16)"
    "hexlify as = hexlify bs'"
    unfolding bs hexlify_Cons by simp_all
  from byte_digits_inj [OF e(1) e(2)] Cons.IH [OF e(3)] show ?case unfolding bs by simp
qed

text \<open>
  Claim C8. The secret key is the hexadecimal rendering of the 32 bytes the entropy source
  gives at the positions 0 to 31, two lower-case digits for each byte in order: a string of
  64 characters, each a hexadecimal digit, that determines the 32 bytes (two keys are equal
  exactly when the bytes drawn are). The \<^verbatim>\<open>length\<close> field is 64, the length of that string,
  and the posted payloads are as before, so no upstream call is made.
\<close>

theorem generate_secret_key_hex:
  "generate_secret_key rnd now log =
     (JObj [(''secret_key'', JStr (token_hex rnd 32)),
            (''length'', JNum 64),
            (''generated_at'', JStr now)], log) \<and>
   token_hex rnd 32 =
     concat (map (\<lambda>i. [hexdigits ! (unat (rnd i) div 16),
                        hexdigits ! (unat (rnd i) mod 16)]) [0..<32]) \<and>
   length (token_hex rnd 32) = 64 \<and>
   set (token_hex rnd 32) \<subseteq> set hexdigits \<and>
   (token_hex rnd 32 = token_hex rnd' 32) = (map rnd [0..<32] = map rnd' [0..<32])"
proof -
  have k: "token_hex rnd 32 =
             concat (map (\<lambda>i. [hexdigits ! (unat (rnd i) div 16),
                                hexdigits ! (unat (rnd i) mod 16)]) [0..<32])"
    by (simp add: token_hex_def token_bytes_def hexlify_def comp_def)
  have l: "length (token_hex rnd 32) = 64"
    by (simp add: token_hex_def token_bytes_def length_hexlify)
  have h: "set (token_hex rnd 32) \<subseteq> set hexdigits"
    unfolding token_hex_def by (rule set_hexlify)
  have g: "generate_secret_key rnd now log =
     (JObj [(''secret_key'', JStr (token_hex rnd 32)),
            (''length'', JNum 64),
            (''generated_at'', JStr now)], log)"
    by (simp add: generate_secret_key_def Let_def l)
  have i: "(token_hex rnd 32 = token_hex rnd' 32) = (map rnd [0..<32] = map rnd' [0..<32])"
  proof
    assume "token_hex rnd 32 = token_hex rnd' 32"
    then have "hexlify (map rnd [0..<32]) = hexlify (map rnd' [0..<32])"
      unfolding token_hex_def token_bytes_def .
    then show "map rnd [0..<32] = map rnd' [0..<32]" by (rule hexlify_inj)
  next
    assume e: "map rnd [0..<32] = map rnd' [0..<32]"
    show "token_hex rnd 32 = token_hex rnd' 32"
      unfolding token_hex_def token_bytes_def e ..
  qed
  from g k l h i show ?thesis by blast
qed

lemma token_hex_counting_bytes:
  "token_hex counting_bytes 32 =
     ''00112233445566778899aabbccddeeff102132435465768798a9bacbdcedfe0f''"
  by code_simp

theorem generate_secret_key_hex_witness:
  "generate_secret_key counting_bytes ''2025-01-01T00:00:00'' [] =
     (JObj [(''secret_key'',
             JStr ''00112233445566778899aabbccddeeff102132435465768798a9bacbdcedfe0f''),
            (''length'', JNum 64),
            (''generated_at'', JStr ''2025-01-01T00:00:00'')], [])"
  using generate_secret_key_hex [of counting_bytes "''2025-01-01T00:00:00''" "[]"]
  unfolding token_hex_counting_bytes by simp

end
